theory Spec2Isabelle
  imports Main
begin

section \<open>The Backstage Fargate service construct\<close>

text \<open>
  A shallow embedding of
  \<^verbatim>\<open>src/infrastructure/src/constructs/backstage-fargate-service-construct.ts\<close>.
  The file holds the props interface, the default props and one constructor, which
  declares a secret, a cluster and a load-balanced Fargate service and wires them to a
  database, a key and two security groups. The constructor is a straight line of calls
  into the CDK library; each call is recorded as an event in an explicit state.
\<close>

subsection \<open>JavaScript values the source relies on\<close>

text \<open>
  An optional property of a JavaScript object is in one of three states: the key is not
  an own property, the key is an own property bound to \<^verbatim>\<open>undefined\<close>, or it is bound
  to a value. Reading the property gives \<^verbatim>\<open>undefined\<close> in the first two.
\<close>

datatype 'a slot = Absent | Undefined | Defined 'a

fun read_slot :: "'a slot \<Rightarrow> 'a option" where
  "read_slot Absent = None"
| "read_slot Undefined = None"
| "read_slot (Defined v) = Some v"

text \<open>
  Object spread \<^verbatim>\<open>{ ...d, ...p }\<close> at one key: every own property of \<^verbatim>\<open>p\<close> is copied
  over that of \<^verbatim>\<open>d\<close>, whatever it is bound to; only a key that \<^verbatim>\<open>p\<close> does not own
  keeps the binding of \<^verbatim>\<open>d\<close>.
\<close>

fun spread_slot :: "'a slot \<Rightarrow> 'a slot \<Rightarrow> 'a slot" where
  "spread_slot d Absent = d"
| "spread_slot d Undefined = Undefined"
| "spread_slot d (Defined v) = Defined v"

text \<open>
  A template literal \<^verbatim>\<open>`${n}`\<close> of a non-negative integer, as a port number is: its
  decimal digits. (JavaScript switches to exponent notation only from \<^verbatim>\<open>1e21\<close> on.)
\<close>

definition digit_char :: "nat \<Rightarrow> char" where
  "digit_char d = ''0123456789'' ! d"

fun string_of_nat :: "nat \<Rightarrow> string" where
  "string_of_nat n =
     (if n < 10 then [digit_char n]
      else string_of_nat (n div 10) @ [digit_char (n mod 10)])"

declare string_of_nat.simps [simp del]

datatype error = TypeError string | Error string

subsection \<open>Handles and input descriptors\<close>

text \<open>
  Resources the constructor only refers to (repository, key, bucket, role, security
  group, secret) are opaque handles. A construct created under a scope is identified by
  its path in the construct tree.
\<close>

type_synonym handle = string

type_synonym EnvVar = "(string \<times> string) list"

datatype ecs_Secret = FromSecretsManager handle "string option"

type_synonym SecretVar = "(string \<times> ecs_Secret) list"

record Endpoint =
  hostname :: string
  port :: nat

text \<open>
  \<^verbatim>\<open>rds.DatabaseCluster\<close>: the endpoint, the credential secret, which the library
  declares optional, and the connections object of its security group.
\<close>

record DatabaseCluster =
  clusterEndpoint :: Endpoint
  secret :: "handle option"
  connections :: handle

text \<open>
  \<^verbatim>\<open>BackstageInfraConfig\<close> is declared in \<^verbatim>\<open>../helpers/infra-config\<close>, outside the source
  file; the five fields the constructor reads are taken as strings.
\<close>

record BackstageInfraConfig =
  AppPrefix :: string
  R53HostedZoneName :: string
  CustomerName :: string
  CustomerLogo :: string
  CustomerLogoIcon :: string

record NetworkConstruct =
  vpc :: handle
  allowedIpsSg :: handle

record IHostedZone =
  zoneHandle :: handle
  zoneName :: string

record HostedZoneConstruct =
  hostedZone_of :: IHostedZone

record BackstageFargateServiceConstructProps =
  network :: NetworkConstruct
  ecrRepository :: handle
  ecrKmsKey :: "handle slot"
  accessLogBucket :: handle
  dbCluster :: DatabaseCluster
  config :: BackstageInfraConfig
  oktaSecret :: handle
  gitlabAdminSecret :: handle
  taskRole :: handle
  hostedZone :: HostedZoneConstruct
  envVars :: "EnvVar slot"
  secretVars :: "SecretVar slot"

text \<open>
  \<^verbatim>\<open>defaultProps\<close> is a partial props object that owns two keys only, \<^verbatim>\<open>envVars\<close> and
  \<^verbatim>\<open>secretVars\<close>, both bound to the empty object.
\<close>

record PartialProps =
  default_envVars :: "EnvVar slot"
  default_secretVars :: "SecretVar slot"

definition defaultProps :: PartialProps where
  "defaultProps = \<lparr>default_envVars = Defined [], default_secretVars = Defined []\<rparr>"

text \<open>
  \<^verbatim>\<open>props = { ...defaultProps, ...props }\<close>. The keys \<^verbatim>\<open>defaultProps\<close> does not own
  come from \<^verbatim>\<open>props\<close> as they are.
\<close>

definition merge_props ::
  "PartialProps \<Rightarrow> BackstageFargateServiceConstructProps \<Rightarrow> BackstageFargateServiceConstructProps"
where
  "merge_props d p =
     p\<lparr>envVars := spread_slot (default_envVars d) (envVars p),
       secretVars := spread_slot (default_secretVars d) (secretVars p)\<rparr>"

subsection \<open>The service definition\<close>

datatype ApplicationProtocol = HTTP | HTTPS

record TaskImageOptions =
  image :: handle
  environment :: EnvVar
  secrets :: SecretVar
  containerPort :: nat
  image_taskRole :: handle

record ApplicationLoadBalancedFargateServiceProps =
  cluster :: handle
  enableExecuteCommand :: bool
  redirectHTTP :: bool
  protocol :: ApplicationProtocol
  taskImageOptions :: TaskImageOptions
  openListener :: bool
  memoryLimitMiB :: nat
  cpu :: nat
  desiredCount :: nat
  domainZone :: handle
  domainName :: string

text \<open>
  \<^verbatim>\<open>ecs.Secret.fromSecretsManager(secret, field)\<close> builds the reference from
  \<^verbatim>\<open>secret.secretArn\<close>. The source passes \<^verbatim>\<open>props.dbCluster.secret!\<close>: the \<^verbatim>\<open>!\<close> is a
  compile-time assertion with no run-time check, so a cluster without a credential
  secret passes \<^verbatim>\<open>undefined\<close>, and reading a property of \<^verbatim>\<open>undefined\<close> raises a
  \<^verbatim>\<open>TypeError\<close>.
\<close>

fun fromSecretsManager :: "handle option \<Rightarrow> string option \<Rightarrow> error + ecs_Secret" where
  "fromSecretsManager None field =
     Inl (TypeError ''Cannot read properties of undefined (reading 'secretArn')'')"
| "fromSecretsManager (Some s) field = Inr (FromSecretsManager s field)"

text \<open>The \<^verbatim>\<open>environment\<close> object literal of lines 126 to 140.\<close>

definition environment_literal :: "BackstageFargateServiceConstructProps \<Rightarrow> EnvVar" where
  "environment_literal props =
     [(''POSTGRES_HOST'', hostname (clusterEndpoint (dbCluster props))),
      (''POSTGRES_PORT'', string_of_nat (port (clusterEndpoint (dbCluster props)))),
      (''BACKSTAGE_TITLE'', ''Backstage AWS Suite''),
      (''BACKSTAGE_ORGNAME'', ''BAWS''),
      (''PROTOCOL'', ''https''),
      (''BACKSTAGE_HOSTNAME'', R53HostedZoneName (config props)),
      (''GITLAB_HOSTNAME'', ''git.'' @ R53HostedZoneName (config props)),
      (''BACKSTAGE_PORT'', ''443''),
      (''NODE_ENV'', ''production''),
      (''CUSTOMER_NAME'', CustomerName (config props)),
      (''CUSTOMER_LOGO'', CustomerLogo (config props)),
      (''CUSTOMER_LOGO_ICON'', CustomerLogoIcon (config props))]"

text \<open>
  The \<^verbatim>\<open>secrets\<close> object literal of lines 141 to 150, evaluated entry by entry; the
  first entry that raises ends the evaluation.
\<close>

definition secrets_literal ::
  "BackstageFargateServiceConstructProps \<Rightarrow> handle \<Rightarrow> error + SecretVar"
where
  "secrets_literal props backstageSecret =
     (case fromSecretsManager (secret (dbCluster props)) (Some ''username'') of
        Inl e \<Rightarrow> Inl e
      | Inr pg_user \<Rightarrow>
     (case fromSecretsManager (secret (dbCluster props)) (Some ''password'') of
        Inl e \<Rightarrow> Inl e
      | Inr pg_password \<Rightarrow>
     (case fromSecretsManager (Some (oktaSecret props)) (Some ''audience'') of
        Inl e \<Rightarrow> Inl e
      | Inr okta_org_url \<Rightarrow>
     (case fromSecretsManager (Some (oktaSecret props)) (Some ''clientId'') of
        Inl e \<Rightarrow> Inl e
      | Inr okta_client_id \<Rightarrow>
     (case fromSecretsManager (Some (oktaSecret props)) (Some ''clientSecret'') of
        Inl e \<Rightarrow> Inl e
      | Inr okta_client_secret \<Rightarrow>
     (case fromSecretsManager (Some (oktaSecret props)) (Some ''apiToken'') of
        Inl e \<Rightarrow> Inl e
      | Inr okta_api_token \<Rightarrow>
     (case fromSecretsManager (Some backstageSecret) None of
        Inl e \<Rightarrow> Inl e
      | Inr backstage_secret \<Rightarrow>
     (case fromSecretsManager (Some (gitlabAdminSecret props)) (Some ''apiToken'') of
        Inl e \<Rightarrow> Inl e
      | Inr gitlab_admin_token \<Rightarrow>
        Inr [(''POSTGRES_USER'', pg_user),
             (''POSTGRES_PASSWORD'', pg_password),
             (''OKTA_ORG_URL'', okta_org_url),
             (''OKTA_CLIENT_ID'', okta_client_id),
             (''OKTA_CLIENT_SECRET'', okta_client_secret),
             (''OKTA_API_TOKEN'', okta_api_token),
             (''BACKSTAGE_SECRET'', backstage_secret),
             (''GITLAB_ADMIN_TOKEN'', gitlab_admin_token)]))))))))"

text \<open>
  The third argument of \<^verbatim>\<open>new ApplicationLoadBalancedFargateService\<close>, lines 119 to
  160. The argument is evaluated before the library constructor runs, so an entry that
  raises leaves the service undeclared.
\<close>

definition service_props ::
  "BackstageFargateServiceConstructProps \<Rightarrow> handle \<Rightarrow> handle \<Rightarrow>
   error + ApplicationLoadBalancedFargateServiceProps"
where
  "service_props props the_cluster backstageSecret =
     (case secrets_literal props backstageSecret of
        Inl e \<Rightarrow> Inl e
      | Inr secs \<Rightarrow>
          Inr \<lparr>cluster = the_cluster,
               enableExecuteCommand = True,
               redirectHTTP = True,
               protocol = HTTPS,
               taskImageOptions =
                 \<lparr>image = ecrRepository props,
                  environment = environment_literal props,
                  secrets = secs,
                  containerPort = 8080,
                  image_taskRole = taskRole props\<rparr>,
               openListener = False,
               memoryLimitMiB = 2048,
               cpu = 512,
               desiredCount = 2,
               domainZone = zoneHandle (hostedZone_of (hostedZone props)),
               domainName = zoneName (hostedZone_of (hostedZone props))\<rparr>)"

subsection \<open>The resource graph as explicit state\<close>

datatype ingress_rule = AllowDefaultPort handle string

datatype event =
    NewSecret handle
  | NewCluster handle handle bool
  | NewService handle ApplicationLoadBalancedFargateServiceProps
  | LogAccessLogs handle handle
  | GrantDecrypt handle handle
  | AllowDefaultPortFrom handle handle string
  | AddSecurityGroup handle handle

text \<open>
  The state the constructor works on: the calls made so far, in order, and for every
  connections object the inbound rules of its perimeter. The third field is a parameter:
  the library's \<^verbatim>\<open>logAccessLogs\<close> is not part of the source file and raises for some
  stacks and log buckets (a stack without a region, for one); the field gives, for a load
  balancer and a bucket, the error the call raises there, if any. No call changes it.
\<close>

record cloud =
  events :: "event list"
  ingress :: "handle \<Rightarrow> ingress_rule set"
  access_log_error :: "handle \<Rightarrow> handle \<Rightarrow> error option"

definition record_event :: "event \<Rightarrow> cloud \<Rightarrow> cloud" where
  "record_event ev s = s\<lparr>events := events s @ [ev]\<rparr>"

definition child :: "handle \<Rightarrow> string \<Rightarrow> handle" where
  "child scope cid = scope @ ''/'' @ cid"

definition new_Secret :: "handle \<Rightarrow> string \<Rightarrow> cloud \<Rightarrow> handle \<times> cloud" where
  "new_Secret scope cid s = (child scope cid, record_event (NewSecret (child scope cid)) s)"

definition new_Cluster :: "handle \<Rightarrow> string \<Rightarrow> handle \<Rightarrow> bool \<Rightarrow> cloud \<Rightarrow> handle \<times> cloud" where
  "new_Cluster scope cid the_vpc containerInsights s =
     (child scope cid, record_event (NewCluster (child scope cid) the_vpc containerInsights) s)"

text \<open>What the constructor reads of the service object the library returns.\<close>

record ApplicationLoadBalancedFargateService =
  loadBalancer :: handle
  executionRole :: handle
  service :: handle

definition service_object :: "handle \<Rightarrow> ApplicationLoadBalancedFargateService" where
  "service_object path =
     \<lparr>loadBalancer = child path ''LB'',
      executionRole = child path ''TaskDef/ExecutionRole'',
      service = child path ''Service''\<rparr>"

definition new_ApplicationLoadBalancedFargateService ::
  "handle \<Rightarrow> string \<Rightarrow> ApplicationLoadBalancedFargateServiceProps \<Rightarrow> cloud \<Rightarrow>
   ApplicationLoadBalancedFargateService \<times> cloud"
where
  "new_ApplicationLoadBalancedFargateService scope cid sp s =
     (service_object (child scope cid), record_event (NewService (child scope cid) sp) s)"

text \<open>
  \<^verbatim>\<open>loadBalancer.logAccessLogs(bucket)\<close>: the call either raises, and then attaches
  nothing, or attaches the bucket.
\<close>

definition logAccessLogs :: "handle \<Rightarrow> handle \<Rightarrow> cloud \<Rightarrow> error + cloud" where
  "logAccessLogs lb bucket s =
     (case access_log_error s lb bucket of
        Some e \<Rightarrow> Inl e
      | None \<Rightarrow> Inr (record_event (LogAccessLogs lb bucket) s))"

definition grantDecrypt :: "handle \<Rightarrow> handle \<Rightarrow> cloud \<Rightarrow> cloud" where
  "grantDecrypt key grantee s = record_event (GrantDecrypt key grantee) s"

text \<open>
  Modelled from the spec: \<^verbatim>\<open>Connections.allowDefaultPortFrom\<close> belongs to the CDK
  library and is not part of the source file. The spec describes the database's
  perimeter as the set of inbound-allow rules of the resource, which can be told to
  allow inbound from a peer and is mutated additively: the call adds the rule for the
  peer, with its description, to the rules of that perimeter and touches no other.
\<close>

definition allowDefaultPortFrom :: "handle \<Rightarrow> handle \<Rightarrow> string \<Rightarrow> cloud \<Rightarrow> cloud" where
  "allowDefaultPortFrom conn peer description s =
     record_event (AllowDefaultPortFrom conn peer description)
       (s\<lparr>ingress := (ingress s)(conn := insert (AllowDefaultPort peer description) (ingress s conn))\<rparr>)"

definition addSecurityGroup :: "handle \<Rightarrow> handle \<Rightarrow> cloud \<Rightarrow> cloud" where
  "addSecurityGroup lb sg s = record_event (AddSecurityGroup lb sg) s"

subsection \<open>The constructor\<close>

text \<open>The two fields the construct exposes.\<close>

record BackstageFargateServiceConstruct =
  construct_cluster :: handle
  construct_loadBalancer :: handle

text \<open>
  Lines 96 to 179. A raised error leaves the state as it was when it was raised: the
  constructs declared before it stay declared.
\<close>

definition constructor ::
  "handle \<Rightarrow> string \<Rightarrow> BackstageFargateServiceConstructProps \<Rightarrow> cloud \<Rightarrow>
   (error + BackstageFargateServiceConstruct) \<times> cloud"
where
  "constructor scope cid props0 s0 =
     (let this = child scope cid;
          props = merge_props defaultProps props0;
          (backstageSecret, s1) =
            new_Secret this (AppPrefix (config props) @ ''-backstage-appsecret'') s0;
          (the_cluster, s2) =
            new_Cluster this ''backstage-solution-cluster'' (vpc (network props)) True s1
      in case service_props props the_cluster backstageSecret of
           Inl e \<Rightarrow> (Inl e, s2)
         | Inr sp \<Rightarrow>
             (let (albFargateService, s3) =
                    new_ApplicationLoadBalancedFargateService this
                      (AppPrefix (config props) @ ''-backstage'') sp s2
              in case logAccessLogs (loadBalancer albFargateService) (accessLogBucket props) s3 of
                   Inl e \<Rightarrow> (Inl e, s3)
                 | Inr s4 \<Rightarrow>
                     (let s5 = (case read_slot (ecrKmsKey props) of
                                  Some key \<Rightarrow>
                                    grantDecrypt key (executionRole albFargateService) s4
                                | None \<Rightarrow> s4);
                          s6 = allowDefaultPortFrom (connections (dbCluster props))
                                 (service albFargateService) ''from fargate service'' s5;
                          s7 = addSecurityGroup (loadBalancer albFargateService)
                                 (allowedIpsSg (network props)) s6
                      in (Inr \<lparr>construct_cluster = the_cluster,
                               construct_loadBalancer = loadBalancer albFargateService\<rparr>,
                          s7))))"

subsection \<open>Reading the state\<close>

text \<open>The calls one run of the constructor added to the state it started from.\<close>

definition new_events :: "cloud \<Rightarrow> cloud \<Rightarrow> event list" where
  "new_events s s' = drop (length (events s)) (events s')"

definition run_events ::
  "handle \<Rightarrow> string \<Rightarrow> BackstageFargateServiceConstructProps \<Rightarrow> cloud \<Rightarrow> event list"
where
  "run_events scope cid p s = new_events s (snd (constructor scope cid p s))"

text \<open>The service definitions declared by a list of calls, with the path of each service.\<close>

fun services_declared ::
  "event list \<Rightarrow> (handle \<times> ApplicationLoadBalancedFargateServiceProps) list"
where
  "services_declared [] = []"
| "services_declared (NewService path sp # evs) = (path, sp) # services_declared evs"
| "services_declared (ev # evs) = services_declared evs"

text \<open>The grants made by a list of calls: the key and the grantee of each.\<close>

fun grants :: "event list \<Rightarrow> (handle \<times> handle) list" where
  "grants [] = []"
| "grants (GrantDecrypt key grantee # evs) = (key, grantee) # grants evs"
| "grants (ev # evs) = grants evs"

text \<open>The keys a service definition injects into its container, plaintext and secret.\<close>

definition environment_keys :: "ApplicationLoadBalancedFargateServiceProps \<Rightarrow> string list" where
  "environment_keys sp = map fst (environment (taskImageOptions sp))"

definition secret_keys :: "ApplicationLoadBalancedFargateServiceProps \<Rightarrow> string list" where
  "secret_keys sp = map fst (secrets (taskImageOptions sp))"

definition injected_keys :: "ApplicationLoadBalancedFargateServiceProps \<Rightarrow> string set" where
  "injected_keys sp = set (environment_keys sp) \<union> set (secret_keys sp)"

text \<open>
  The paths of the three constructs the constructor declares under \<^verbatim>\<open>this\<close>, and the
  rule it asks the database's perimeter for.
\<close>

definition secret_path :: "handle \<Rightarrow> string \<Rightarrow> BackstageFargateServiceConstructProps \<Rightarrow> handle" where
  "secret_path scope cid p = child (child scope cid) (AppPrefix (config p) @ ''-backstage-appsecret'')"

definition cluster_path :: "handle \<Rightarrow> string \<Rightarrow> handle" where
  "cluster_path scope cid = child (child scope cid) ''backstage-solution-cluster''"

definition service_path :: "handle \<Rightarrow> string \<Rightarrow> BackstageFargateServiceConstructProps \<Rightarrow> handle" where
  "service_path scope cid p = child (child scope cid) (AppPrefix (config p) @ ''-backstage'')"

text \<open>The error, if any, that attaching access logging raises in one run.\<close>

definition access_logging_error ::
  "handle \<Rightarrow> string \<Rightarrow> BackstageFargateServiceConstructProps \<Rightarrow> cloud \<Rightarrow> error option"
where
  "access_logging_error scope cid p s =
     access_log_error s (loadBalancer (service_object (service_path scope cid p)))
       (accessLogBucket p)"

definition service_rule :: "handle \<Rightarrow> string \<Rightarrow> BackstageFargateServiceConstructProps \<Rightarrow> ingress_rule" where
  "service_rule scope cid p =
     AllowDefaultPort (service (service_object (service_path scope cid p))) ''from fargate service''"

subsection \<open>Sample inputs\<close>

definition empty_cloud :: cloud where
  "empty_cloud =
     \<lparr>events = [], ingress = (\<lambda>_. {}), access_log_error = (\<lambda>_ _. None)\<rparr>"

text \<open>A state in which the database's perimeter already holds a rule of someone else.\<close>

definition sample_cloud :: cloud where
  "sample_cloud =
     \<lparr>events = [],
      ingress = (\<lambda>_. {})(''db-sg'' := {AllowDefaultPort ''bastion'' ''operator access''}),
      access_log_error = (\<lambda>_ _. None)\<rparr>"

text \<open>A stack without a region: attaching access logging raises there.\<close>

definition sample_cloud_no_region :: cloud where
  "sample_cloud_no_region =
     \<lparr>events = [],
      ingress = (\<lambda>_. {}),
      access_log_error =
        (\<lambda>_ _. Some (Error ''Region is required to enable ELBv2 access logging''))\<rparr>"

text \<open>
  A well-formed props object: database endpoint \<^verbatim>\<open>db.internal:5432\<close> with a credential
  secret, an encrypted repository, and both caller maps bound to the empty object.
\<close>

definition sample_props :: BackstageFargateServiceConstructProps where
  "sample_props =
     \<lparr>network = \<lparr>vpc = ''vpc'', allowedIpsSg = ''allowed-ips-sg''\<rparr>,
      ecrRepository = ''backstage-repo'',
      ecrKmsKey = Defined ''ecr-key'',
      accessLogBucket = ''log-bucket'',
      dbCluster =
        \<lparr>clusterEndpoint = \<lparr>hostname = ''db.internal'', port = 5432\<rparr>,
         secret = Some ''db-secret'',
         connections = ''db-sg''\<rparr>,
      config =
        \<lparr>AppPrefix = ''baws'',
         R53HostedZoneName = ''example.com'',
         CustomerName = ''ACME'',
         CustomerLogo = ''logo.png'',
         CustomerLogoIcon = ''icon.png''\<rparr>,
      oktaSecret = ''okta-secret'',
      gitlabAdminSecret = ''gitlab-secret'',
      taskRole = ''task-role'',
      hostedZone = \<lparr>hostedZone_of = \<lparr>zoneHandle = ''zone'', zoneName = ''example.com''\<rparr>\<rparr>,
      envVars = Defined [],
      secretVars = Defined []\<rparr>"

text \<open>The same cluster without a credential secret, as a fixed-password cluster has it.\<close>

definition sample_props_no_credential :: BackstageFargateServiceConstructProps where
  "sample_props_no_credential =
     sample_props\<lparr>dbCluster := (dbCluster sample_props)\<lparr>secret := None\<rparr>\<rparr>"

text \<open>A repository without a customer-managed key: the props object does not own the key.\<close>

definition sample_props_no_key :: BackstageFargateServiceConstructProps where
  "sample_props_no_key = sample_props\<lparr>ecrKmsKey := Absent\<rparr>"

text \<open>A caller that passes one plaintext variable and one secret reference of its own.\<close>

definition sample_props_caller_maps :: BackstageFargateServiceConstructProps where
  "sample_props_caller_maps =
     sample_props\<lparr>envVars := Defined [(''FOO'', ''bar'')],
                  secretVars := Defined [(''EXTRA_TOKEN'', FromSecretsManager ''extra-secret'' None)]\<rparr>"

text \<open>A caller that passes neither map: the props object owns neither key.\<close>

definition sample_props_no_maps :: BackstageFargateServiceConstructProps where
  "sample_props_no_maps = sample_props\<lparr>envVars := Absent, secretVars := Absent\<rparr>"

text \<open>A second service of another application, against the same database.\<close>

definition sample_props_second :: BackstageFargateServiceConstructProps where
  "sample_props_second = sample_props\<lparr>config := (config sample_props)\<lparr>AppPrefix := ''other''\<rparr>\<rparr>"

section \<open>Properties\<close>

subsection \<open>What one run of the constructor does\<close>

lemma secrets_literal_None:
  "secret (dbCluster p) = None \<Longrightarrow>
   secrets_literal p b =
     Inl (TypeError ''Cannot read properties of undefined (reading 'secretArn')'')"
  by (simp add: secrets_literal_def)

lemma secrets_literal_Some:
  "secret (dbCluster p) = Some h \<Longrightarrow>
   secrets_literal p b =
     Inr [(''POSTGRES_USER'', FromSecretsManager h (Some ''username'')),
          (''POSTGRES_PASSWORD'', FromSecretsManager h (Some ''password'')),
          (''OKTA_ORG_URL'', FromSecretsManager (oktaSecret p) (Some ''audience'')),
          (''OKTA_CLIENT_ID'', FromSecretsManager (oktaSecret p) (Some ''clientId'')),
          (''OKTA_CLIENT_SECRET'', FromSecretsManager (oktaSecret p) (Some ''clientSecret'')),
          (''OKTA_API_TOKEN'', FromSecretsManager (oktaSecret p) (Some ''apiToken'')),
          (''BACKSTAGE_SECRET'', FromSecretsManager b None),
          (''GITLAB_ADMIN_TOKEN'', FromSecretsManager (gitlabAdminSecret p) (Some ''apiToken''))]"
  by (simp add: secrets_literal_def)

text \<open>The merge leaves every key but the two defaulted ones as the caller bound it.\<close>

lemma merge_props_sel [simp]:
  "network (merge_props d p) = network p"
  "ecrRepository (merge_props d p) = ecrRepository p"
  "ecrKmsKey (merge_props d p) = ecrKmsKey p"
  "accessLogBucket (merge_props d p) = accessLogBucket p"
  "dbCluster (merge_props d p) = dbCluster p"
  "config (merge_props d p) = config p"
  "oktaSecret (merge_props d p) = oktaSecret p"
  "gitlabAdminSecret (merge_props d p) = gitlabAdminSecret p"
  "taskRole (merge_props d p) = taskRole p"
  "hostedZone (merge_props d p) = hostedZone p"
  by (simp_all add: merge_props_def)

lemma environment_literal_merge [simp]:
  "environment_literal (merge_props d p) = environment_literal p"
  by (simp add: environment_literal_def)

lemma secrets_literal_merge [simp]:
  "secrets_literal (merge_props d p) b = secrets_literal p b"
  by (cases "secret (dbCluster p)") (simp_all add: secrets_literal_def)

lemma service_props_merge [simp]:
  "service_props (merge_props d p) c b = service_props p c b"
  by (simp add: service_props_def cong: sum.case_cong)

lemma service_props_None:
  "secret (dbCluster p) = None \<Longrightarrow>
   service_props p c b =
     Inl (TypeError ''Cannot read properties of undefined (reading 'secretArn')'')"
  by (simp add: service_props_def secrets_literal_None)

lemma service_props_Some:
  "secret (dbCluster p) = Some h \<Longrightarrow>
   service_props p c b =
     Inr \<lparr>cluster = c, enableExecuteCommand = True, redirectHTTP = True, protocol = HTTPS,
          taskImageOptions =
            \<lparr>image = ecrRepository p,
             environment = environment_literal p,
             secrets =
               [(''POSTGRES_USER'', FromSecretsManager h (Some ''username'')),
                (''POSTGRES_PASSWORD'', FromSecretsManager h (Some ''password'')),
                (''OKTA_ORG_URL'', FromSecretsManager (oktaSecret p) (Some ''audience'')),
                (''OKTA_CLIENT_ID'', FromSecretsManager (oktaSecret p) (Some ''clientId'')),
                (''OKTA_CLIENT_SECRET'', FromSecretsManager (oktaSecret p) (Some ''clientSecret'')),
                (''OKTA_API_TOKEN'', FromSecretsManager (oktaSecret p) (Some ''apiToken'')),
                (''BACKSTAGE_SECRET'', FromSecretsManager b None),
                (''GITLAB_ADMIN_TOKEN'',
                   FromSecretsManager (gitlabAdminSecret p) (Some ''apiToken''))],
             containerPort = 8080,
             image_taskRole = taskRole p\<rparr>,
          openListener = False, memoryLimitMiB = 2048, cpu = 512, desiredCount = 2,
          domainZone = zoneHandle (hostedZone_of (hostedZone p)),
          domainName = zoneName (hostedZone_of (hostedZone p))\<rparr>"
  by (simp add: service_props_def secrets_literal_Some)

lemma new_events_append [simp]:
  "new_events s (s\<lparr>events := events s @ evs, ingress := f\<rparr>) = evs"
  "new_events s (s\<lparr>events := events s @ evs\<rparr>) = evs"
  by (simp_all add: new_events_def)

text \<open>
  Without a credential secret the run ends in the error, with the application secret and
  the cluster declared and nothing else done.
\<close>

lemma run_fails:
  assumes "secret (dbCluster p) = None"
  shows "constructor scope cid p s =
     (Inl (TypeError ''Cannot read properties of undefined (reading 'secretArn')''),
      s\<lparr>events := events s @
          [NewSecret (secret_path scope cid p),
           NewCluster (cluster_path scope cid) (vpc (network p)) True]\<rparr>)"
  using assms
  by (simp add: constructor_def Let_def new_Secret_def new_Cluster_def record_event_def
      service_props_None secret_path_def cluster_path_def)

text \<open>
  Once the service definition is built the service is declared. If attaching access
  logging raises, the run ends there, with the three declarations made and nothing else
  done.
\<close>

lemma run_logging_fails:
  assumes "service_props p (cluster_path scope cid) (secret_path scope cid p) = Inr sp"
    and "access_logging_error scope cid p s = Some e"
  shows "constructor scope cid p s =
     (Inl e,
      s\<lparr>events := events s @
          [NewSecret (secret_path scope cid p),
           NewCluster (cluster_path scope cid) (vpc (network p)) True,
           NewService (service_path scope cid p) sp]\<rparr>)"
  using assms
  by (simp add: constructor_def Let_def new_Secret_def new_Cluster_def record_event_def
      new_ApplicationLoadBalancedFargateService_def logAccessLogs_def secret_path_def
      cluster_path_def service_path_def access_logging_error_def)

text \<open>Otherwise the run makes all its calls in order.\<close>

lemma run_succeeds:
  assumes "service_props p (cluster_path scope cid) (secret_path scope cid p) = Inr sp"
    and "access_logging_error scope cid p s = None"
  shows "constructor scope cid p s =
     (Inr \<lparr>construct_cluster = cluster_path scope cid,
           construct_loadBalancer = loadBalancer (service_object (service_path scope cid p))\<rparr>,
      s\<lparr>events := events s @
          [NewSecret (secret_path scope cid p),
           NewCluster (cluster_path scope cid) (vpc (network p)) True,
           NewService (service_path scope cid p) sp,
           LogAccessLogs (loadBalancer (service_object (service_path scope cid p)))
             (accessLogBucket p)] @
          (case read_slot (ecrKmsKey p) of
             Some key \<Rightarrow>
               [GrantDecrypt key (executionRole (service_object (service_path scope cid p)))]
           | None \<Rightarrow> []) @
          [AllowDefaultPortFrom (connections (dbCluster p))
             (service (service_object (service_path scope cid p))) ''from fargate service'',
           AddSecurityGroup (loadBalancer (service_object (service_path scope cid p)))
             (allowedIpsSg (network p))],
        ingress := (ingress s)
          (connections (dbCluster p) :=
             insert (service_rule scope cid p) (ingress s (connections (dbCluster p))))\<rparr>)"
  using assms
  by (simp add: constructor_def Let_def new_Secret_def new_Cluster_def record_event_def
      new_ApplicationLoadBalancedFargateService_def logAccessLogs_def grantDecrypt_def
      allowDefaultPortFrom_def addSecurityGroup_def secret_path_def cluster_path_def
      service_path_def service_rule_def access_logging_error_def split: option.splits)

lemma services_declared_append [simp]:
  "services_declared (xs @ ys) = services_declared xs @ services_declared ys"
  by (induction xs rule: services_declared.induct) simp_all

lemma grants_append [simp]:
  "grants (xs @ ys) = grants xs @ grants ys"
  by (induction xs rule: grants.induct) simp_all

lemma declared_fails:
  assumes "secret (dbCluster p) = None"
  shows "run_events scope cid p s =
           [NewSecret (secret_path scope cid p),
            NewCluster (cluster_path scope cid) (vpc (network p)) True]"
    and "ingress (snd (constructor scope cid p s)) = ingress s"
    and "isl (fst (constructor scope cid p s))"
    and "access_log_error (snd (constructor scope cid p s)) = access_log_error s"
  by (simp_all add: run_events_def run_fails [OF assms])

lemma declared_succeeds:
  assumes "secret (dbCluster p) = Some h"
  shows "\<exists>sp. service_props p (cluster_path scope cid) (secret_path scope cid p) = Inr sp \<and>
     services_declared (run_events scope cid p s) = [(service_path scope cid p, sp)] \<and>
     NewSecret (secret_path scope cid p) \<in> set (run_events scope cid p s) \<and>
     grants (run_events scope cid p s) =
       (case access_logging_error scope cid p s of
          Some e \<Rightarrow> []
        | None \<Rightarrow>
            (case read_slot (ecrKmsKey p) of
               Some key \<Rightarrow> [(key, executionRole (service_object (service_path scope cid p)))]
             | None \<Rightarrow> [])) \<and>
     ingress (snd (constructor scope cid p s)) =
       (case access_logging_error scope cid p s of
          Some e \<Rightarrow> ingress s
        | None \<Rightarrow>
            (ingress s)(connections (dbCluster p) :=
               insert (service_rule scope cid p) (ingress s (connections (dbCluster p))))) \<and>
     (isl (fst (constructor scope cid p s)) \<longleftrightarrow> access_logging_error scope cid p s \<noteq> None) \<and>
     access_log_error (snd (constructor scope cid p s)) = access_log_error s"
proof -
  obtain sp where sp: "service_props p (cluster_path scope cid) (secret_path scope cid p) = Inr sp"
    using service_props_Some [OF assms] by blast
  show ?thesis
  proof (cases "access_logging_error scope cid p s")
    case None
    show ?thesis
      by (simp add: run_events_def sp None run_succeeds [OF sp None] split: option.splits)
  next
    case (Some e)
    show ?thesis
      by (simp add: run_events_def sp Some run_logging_fails [OF sp Some])
  qed
qed

text \<open>The keys of a service definition do not depend on the input.\<close>

lemma keys_of_service_props:
  assumes "service_props p c b = Inr sp"
  shows "environment_keys sp =
           [''POSTGRES_HOST'', ''POSTGRES_PORT'', ''BACKSTAGE_TITLE'', ''BACKSTAGE_ORGNAME'',
            ''PROTOCOL'', ''BACKSTAGE_HOSTNAME'', ''GITLAB_HOSTNAME'', ''BACKSTAGE_PORT'',
            ''NODE_ENV'', ''CUSTOMER_NAME'', ''CUSTOMER_LOGO'', ''CUSTOMER_LOGO_ICON'']"
    and "secret_keys sp =
           [''POSTGRES_USER'', ''POSTGRES_PASSWORD'', ''OKTA_ORG_URL'', ''OKTA_CLIENT_ID'',
            ''OKTA_CLIENT_SECRET'', ''OKTA_API_TOKEN'', ''BACKSTAGE_SECRET'',
            ''GITLAB_ADMIN_TOKEN'']"
proof -
  from assms obtain h where h: "secret (dbCluster p) = Some h"
    by (cases "secret (dbCluster p)") (simp_all add: service_props_None)
  from service_props_Some [OF h, of c b] assms
  show "environment_keys sp =
           [''POSTGRES_HOST'', ''POSTGRES_PORT'', ''BACKSTAGE_TITLE'', ''BACKSTAGE_ORGNAME'',
            ''PROTOCOL'', ''BACKSTAGE_HOSTNAME'', ''GITLAB_HOSTNAME'', ''BACKSTAGE_PORT'',
            ''NODE_ENV'', ''CUSTOMER_NAME'', ''CUSTOMER_LOGO'', ''CUSTOMER_LOGO_ICON'']"
    by (auto simp add: environment_keys_def environment_literal_def)
  from service_props_Some [OF h, of c b] assms
  show "secret_keys sp =
           [''POSTGRES_USER'', ''POSTGRES_PASSWORD'', ''OKTA_ORG_URL'', ''OKTA_CLIENT_ID'',
            ''OKTA_CLIENT_SECRET'', ''OKTA_API_TOKEN'', ''BACKSTAGE_SECRET'',
            ''GITLAB_ADMIN_TOKEN'']"
    by (auto simp add: secret_keys_def)
qed

lemma sample_secret [simp]:
  "secret (dbCluster sample_props) = Some ''db-secret''"
  "secret (dbCluster sample_props_no_key) = Some ''db-secret''"
  "secret (dbCluster sample_props_caller_maps) = Some ''db-secret''"
  "secret (dbCluster sample_props_no_maps) = Some ''db-secret''"
  "secret (dbCluster sample_props_second) = Some ''db-secret''"
  "secret (dbCluster sample_props_no_credential) = None"
  by (simp_all add: sample_props_def sample_props_no_key_def sample_props_caller_maps_def
      sample_props_no_maps_def sample_props_second_def sample_props_no_credential_def)

subsection \<open>Caller-supplied environment and secret maps\<close>

text \<open>
  C1. The spec asks that every pair of the caller's \<^verbatim>\<open>envVars\<close> and every entry of the
  caller's \<^verbatim>\<open>secretVars\<close> appear in what is injected into the container. The constructor
  merges the two maps with their defaults and then never reads them: the \<^verbatim>\<open>environment\<close>
  and \<^verbatim>\<open>secrets\<close> literals hold the fixed entries only. For a caller that passes
  \<^verbatim>\<open>envVars = {FOO: "bar"}\<close> and \<^verbatim>\<open>secretVars = {EXTRA_TOKEN: ...}\<close>, the merged props
  still hold both maps, and the one service declared injects the twelve fixed plaintext keys
  and the eight fixed secret keys, with neither \<^verbatim>\<open>FOO\<close> nor \<^verbatim>\<open>EXTRA_TOKEN\<close> among them.
\<close>

theorem caller_maps_are_dropped:
  "envVars (merge_props defaultProps sample_props_caller_maps) = Defined [(''FOO'', ''bar'')] \<and>
   secretVars (merge_props defaultProps sample_props_caller_maps) =
     Defined [(''EXTRA_TOKEN'', FromSecretsManager ''extra-secret'' None)] \<and>
   map (\<lambda>(path, sp). (environment_keys sp, secret_keys sp))
     (services_declared (run_events ''Stack'' ''Backstage'' sample_props_caller_maps empty_cloud)) =
     [([''POSTGRES_HOST'', ''POSTGRES_PORT'', ''BACKSTAGE_TITLE'', ''BACKSTAGE_ORGNAME'',
        ''PROTOCOL'', ''BACKSTAGE_HOSTNAME'', ''GITLAB_HOSTNAME'', ''BACKSTAGE_PORT'',
        ''NODE_ENV'', ''CUSTOMER_NAME'', ''CUSTOMER_LOGO'', ''CUSTOMER_LOGO_ICON''],
       [''POSTGRES_USER'', ''POSTGRES_PASSWORD'', ''OKTA_ORG_URL'', ''OKTA_CLIENT_ID'',
        ''OKTA_CLIENT_SECRET'', ''OKTA_API_TOKEN'', ''BACKSTAGE_SECRET'',
        ''GITLAB_ADMIN_TOKEN''])]"
proof -
  have m: "envVars (merge_props defaultProps sample_props_caller_maps) = Defined [(''FOO'', ''bar'')]"
    "secretVars (merge_props defaultProps sample_props_caller_maps) =
       Defined [(''EXTRA_TOKEN'', FromSecretsManager ''extra-secret'' None)]"
    by (simp_all add: merge_props_def defaultProps_def sample_props_caller_maps_def)
  from declared_succeeds [OF sample_secret(3), of "''Stack''" "''Backstage''" empty_cloud]
  obtain sp where sp:
    "service_props sample_props_caller_maps (cluster_path ''Stack'' ''Backstage'')
       (secret_path ''Stack'' ''Backstage'' sample_props_caller_maps) = Inr sp"
    "services_declared (run_events ''Stack'' ''Backstage'' sample_props_caller_maps empty_cloud) =
       [(service_path ''Stack'' ''Backstage'' sample_props_caller_maps, sp)]"
    by blast
  show ?thesis
    by (simp add: m sp(2) keys_of_service_props [OF sp(1)])
qed

subsection \<open>A database cluster without a credential secret\<close>

text \<open>
  C2, as amended. If the supplied database cluster has no credential secret attached, the
  constructor fails with a type error while it builds the secret references of the service
  definition. By then it has declared the application secret and the cluster, and it has
  done nothing else: no service is declared, no access logging attached, no grant made and
  no perimeter touched.
\<close>

theorem missing_credential_fails_after_cluster:
  assumes "secret (dbCluster p) = None"
  shows "constructor scope cid p s =
     (Inl (TypeError ''Cannot read properties of undefined (reading 'secretArn')''),
      s\<lparr>events := events s @
          [NewSecret (secret_path scope cid p),
           NewCluster (cluster_path scope cid) (vpc (network p)) True]\<rparr>)"
  using assms by (rule run_fails)

theorem missing_credential_fails_after_cluster_witness:
  "secret (dbCluster sample_props_no_credential) = None \<and>
   constructor ''Stack'' ''Backstage'' sample_props_no_credential sample_cloud =
     (Inl (TypeError ''Cannot read properties of undefined (reading 'secretArn')''),
      sample_cloud\<lparr>events :=
          [NewSecret ''Stack/Backstage/baws-backstage-appsecret'',
           NewCluster ''Stack/Backstage/backstage-solution-cluster'' ''vpc'' True]\<rparr>)"
proof -
  have h: "secret (dbCluster sample_props_no_credential) = None"
    by (simp add: sample_props_no_credential_def)
  from missing_credential_fails_after_cluster [OF h, of "''Stack''" "''Backstage''" sample_cloud] h
  show ?thesis
    by (simp add: sample_cloud_def secret_path_def cluster_path_def child_def
        sample_props_no_credential_def sample_props_def)
qed

text \<open>
  The sentence as the spec has it, that such a failure comes before any resource is
  created, fails on the sample cluster without a credential secret: the run ends in an
  error and the state holds the two declarations made before it.
\<close>

theorem missing_credential_counterexample:
  "secret (dbCluster sample_props_no_credential) = None \<and>
   isl (fst (constructor ''Stack'' ''Backstage'' sample_props_no_credential empty_cloud)) \<and>
   events (snd (constructor ''Stack'' ''Backstage'' sample_props_no_credential empty_cloud)) =
     [NewSecret ''Stack/Backstage/baws-backstage-appsecret'',
      NewCluster ''Stack/Backstage/backstage-solution-cluster'' ''vpc'' True] \<and>
   events (snd (constructor ''Stack'' ''Backstage'' sample_props_no_credential empty_cloud)) \<noteq>
     events empty_cloud"
proof -
  have h: "secret (dbCluster sample_props_no_credential) = None"
    by (simp add: sample_props_no_credential_def)
  have a: "secret_path ''Stack'' ''Backstage'' sample_props_no_credential =
             ''Stack/Backstage/baws-backstage-appsecret''"
    by (simp add: secret_path_def child_def sample_props_no_credential_def sample_props_def)
  have b: "cluster_path ''Stack'' ''Backstage'' = ''Stack/Backstage/backstage-solution-cluster''"
    by (simp add: cluster_path_def child_def)
  have c: "vpc (network sample_props_no_credential) = ''vpc''"
    by (simp add: sample_props_no_credential_def sample_props_def)
  show ?thesis
    unfolding run_fails [OF h, of "''Stack''" "''Backstage''" empty_cloud]
    by (simp add: h a b c empty_cloud_def)
qed

subsection \<open>Fixed policies of the service\<close>

text \<open>
  C5. For every input, every service the constructor declares has the HTTP to HTTPS
  redirect switched on and HTTPS as its external protocol, so no input yields a listener
  that accepts bare HTTP without redirecting; and whenever the database cluster carries
  its credential secret, the run declares one service.
\<close>

theorem listener_redirects_http_to_https:
  "(\<forall>(path, sp) \<in> set (services_declared (run_events scope cid p s)).
      redirectHTTP sp \<and> protocol sp = HTTPS) \<and>
   (secret (dbCluster p) \<noteq> None \<longrightarrow> length (services_declared (run_events scope cid p s)) = 1)"
proof (cases "secret (dbCluster p)")
  case None
  then show ?thesis by (simp add: declared_fails)
next
  case (Some h)
  from declared_succeeds [OF Some, of scope cid s]
  obtain sp where sp:
    "service_props p (cluster_path scope cid) (secret_path scope cid p) = Inr sp"
    "services_declared (run_events scope cid p s) = [(service_path scope cid p, sp)]"
    by blast
  from sp(1) service_props_Some [OF Some, of "cluster_path scope cid" "secret_path scope cid p"]
  have "enableExecuteCommand sp" "redirectHTTP sp" "protocol sp = HTTPS"
    by auto
  with sp(2) show ?thesis
    by simp
qed

theorem listener_redirects_http_to_https_witness:
  "secret (dbCluster sample_props) \<noteq> None \<and>
   map (\<lambda>(path, sp). (redirectHTTP sp, protocol sp))
     (services_declared (run_events ''Stack'' ''Backstage'' sample_props empty_cloud)) =
     [(True, HTTPS)]"
proof -
  have h: "secret (dbCluster sample_props) \<noteq> None"
    by (simp add: sample_props_def)
  from listener_redirects_http_to_https [of "''Stack''" "''Backstage''" sample_props empty_cloud] h
  have all: "\<forall>(path, sp) \<in> set (services_declared (run_events ''Stack'' ''Backstage'' sample_props empty_cloud)).
               redirectHTTP sp \<and> protocol sp = HTTPS"
    and one: "length (services_declared (run_events ''Stack'' ''Backstage'' sample_props empty_cloud)) = 1"
    by blast+
  from one obtain x where
    x: "services_declared (run_events ''Stack'' ''Backstage'' sample_props empty_cloud) = [x]"
    by (auto simp add: length_Suc_conv)
  from all show ?thesis using h by (cases x) (simp add: x)
qed

text \<open>
  C9. For every input, every service the constructor declares has remote command
  execution into its containers switched on; no input yields a service with it off. As
  before, the run declares one service whenever the database cluster carries its
  credential secret.
\<close>

theorem execute_command_always_enabled:
  "(\<forall>(path, sp) \<in> set (services_declared (run_events scope cid p s)). enableExecuteCommand sp) \<and>
   (secret (dbCluster p) \<noteq> None \<longrightarrow> length (services_declared (run_events scope cid p s)) = 1)"
proof (cases "secret (dbCluster p)")
  case None
  then show ?thesis by (simp add: declared_fails)
next
  case (Some h)
  from declared_succeeds [OF Some, of scope cid s]
  obtain sp where sp:
    "service_props p (cluster_path scope cid) (secret_path scope cid p) = Inr sp"
    "services_declared (run_events scope cid p s) = [(service_path scope cid p, sp)]"
    by blast
  from sp(1) service_props_Some [OF Some, of "cluster_path scope cid" "secret_path scope cid p"]
  have "enableExecuteCommand sp" "redirectHTTP sp" "protocol sp = HTTPS"
    by auto
  with sp(2) show ?thesis
    by simp
qed

theorem execute_command_always_enabled_witness:
  "secret (dbCluster sample_props_no_key) \<noteq> None \<and>
   map (\<lambda>(path, sp). enableExecuteCommand sp)
     (services_declared (run_events ''Stack'' ''Portal'' sample_props_no_key sample_cloud)) = [True]"
proof -
  have h: "secret (dbCluster sample_props_no_key) \<noteq> None"
    by simp
  from execute_command_always_enabled [of "''Stack''" "''Portal''" sample_props_no_key sample_cloud] h
  have all: "\<forall>(path, sp) \<in> set (services_declared (run_events ''Stack'' ''Portal'' sample_props_no_key sample_cloud)).
               enableExecuteCommand sp"
    and one: "length (services_declared (run_events ''Stack'' ''Portal'' sample_props_no_key sample_cloud)) = 1"
    by blast+
  from one obtain x where
    x: "services_declared (run_events ''Stack'' ''Portal'' sample_props_no_key sample_cloud) = [x]"
    by (auto simp add: length_Suc_conv)
  from all show ?thesis using h by (cases x) (simp add: x)
qed

text \<open>
  C7. For every valid input, that is, a database cluster with its credential secret, the
  one service declared has container port 8080, 2048 MiB of memory, 512 CPU units and a
  desired count of 2, whatever the caller configured. Its environment holds
  \<^verbatim>\<open>POSTGRES_HOST\<close> and \<^verbatim>\<open>POSTGRES_PORT\<close>, bound to the endpoint of the cluster, and its
  secrets hold \<^verbatim>\<open>POSTGRES_USER\<close> and \<^verbatim>\<open>POSTGRES_PASSWORD\<close>, bound to the credential
  secret, and \<^verbatim>\<open>BACKSTAGE_SECRET\<close>, bound to the application secret this run has
  declared.
\<close>

theorem fixed_sizing_and_required_keys:
  assumes "secret (dbCluster p) = Some h"
  shows "\<exists>sp. services_declared (run_events scope cid p s) = [(service_path scope cid p, sp)] \<and>
     containerPort (taskImageOptions sp) = 8080 \<and>
     memoryLimitMiB sp = 2048 \<and>
     cpu sp = 512 \<and>
     desiredCount sp = 2 \<and>
     (''POSTGRES_HOST'', hostname (clusterEndpoint (dbCluster p)))
        \<in> set (environment (taskImageOptions sp)) \<and>
     (''POSTGRES_PORT'', string_of_nat (port (clusterEndpoint (dbCluster p))))
        \<in> set (environment (taskImageOptions sp)) \<and>
     (''POSTGRES_USER'', FromSecretsManager h (Some ''username''))
        \<in> set (secrets (taskImageOptions sp)) \<and>
     (''POSTGRES_PASSWORD'', FromSecretsManager h (Some ''password''))
        \<in> set (secrets (taskImageOptions sp)) \<and>
     (''BACKSTAGE_SECRET'', FromSecretsManager (secret_path scope cid p) None)
        \<in> set (secrets (taskImageOptions sp)) \<and>
     NewSecret (secret_path scope cid p) \<in> set (run_events scope cid p s)"
proof -
  from declared_succeeds [OF assms, of scope cid s]
  obtain sp where sp:
    "service_props p (cluster_path scope cid) (secret_path scope cid p) = Inr sp"
    "services_declared (run_events scope cid p s) = [(service_path scope cid p, sp)]"
    and ev: "NewSecret (secret_path scope cid p) \<in> set (run_events scope cid p s)"
    by blast
  from sp(1) service_props_Some [OF assms, of "cluster_path scope cid" "secret_path scope cid p"]
  have "containerPort (taskImageOptions sp) = 8080" "memoryLimitMiB sp = 2048" "cpu sp = 512"
    "desiredCount sp = 2"
    "environment (taskImageOptions sp) = environment_literal p"
    "(''POSTGRES_USER'', FromSecretsManager h (Some ''username'')) \<in> set (secrets (taskImageOptions sp))"
    "(''POSTGRES_PASSWORD'', FromSecretsManager h (Some ''password'')) \<in> set (secrets (taskImageOptions sp))"
    "(''BACKSTAGE_SECRET'', FromSecretsManager (secret_path scope cid p) None)
        \<in> set (secrets (taskImageOptions sp))"
    by auto
  with sp(2) ev show ?thesis
    by (simp add: environment_literal_def)
qed

theorem fixed_sizing_and_required_keys_witness:
  "secret (dbCluster sample_props_caller_maps) = Some ''db-secret'' \<and>
   (\<exists>sp. services_declared (run_events ''Stack'' ''Backstage'' sample_props_caller_maps sample_cloud) =
            [(''Stack/Backstage/baws-backstage'', sp)] \<and>
     containerPort (taskImageOptions sp) = 8080 \<and>
     memoryLimitMiB sp = 2048 \<and>
     cpu sp = 512 \<and>
     desiredCount sp = 2 \<and>
     (''POSTGRES_HOST'', ''db.internal'') \<in> set (environment (taskImageOptions sp)) \<and>
     (''POSTGRES_PORT'', ''5432'') \<in> set (environment (taskImageOptions sp)) \<and>
     (''POSTGRES_USER'', FromSecretsManager ''db-secret'' (Some ''username''))
        \<in> set (secrets (taskImageOptions sp)) \<and>
     (''POSTGRES_PASSWORD'', FromSecretsManager ''db-secret'' (Some ''password''))
        \<in> set (secrets (taskImageOptions sp)) \<and>
     (''BACKSTAGE_SECRET'', FromSecretsManager ''Stack/Backstage/baws-backstage-appsecret'' None)
        \<in> set (secrets (taskImageOptions sp)) \<and>
     NewSecret ''Stack/Backstage/baws-backstage-appsecret''
        \<in> set (run_events ''Stack'' ''Backstage'' sample_props_caller_maps sample_cloud))"
proof -
  have h: "secret (dbCluster sample_props_caller_maps) = Some ''db-secret''"
    by simp
  have v: "service_path ''Stack'' ''Backstage'' sample_props_caller_maps = ''Stack/Backstage/baws-backstage''"
    "secret_path ''Stack'' ''Backstage'' sample_props_caller_maps = ''Stack/Backstage/baws-backstage-appsecret''"
    "hostname (clusterEndpoint (dbCluster sample_props_caller_maps)) = ''db.internal''"
    "string_of_nat (port (clusterEndpoint (dbCluster sample_props_caller_maps))) = ''5432''"
    by (simp_all add: service_path_def secret_path_def child_def sample_props_caller_maps_def
        sample_props_def string_of_nat.simps digit_char_def)
  from fixed_sizing_and_required_keys [OF h, of "''Stack''" "''Backstage''" sample_cloud] h
  show ?thesis unfolding v by blast
qed

subsection \<open>The decrypt grant on the repository's key\<close>

text \<open>
  C4, as amended. On every input on which the run reaches the grant step, that is, the
  database cluster carries its credential secret and attaching access logging does not
  raise, a decrypt grant is made on a key to a grantee exactly when the key is the one
  the props carry and the grantee is the execution role of the service this run has
  declared. On every other input the run has failed before the grant step and makes no
  grant, key or no key. On every input, when the props carry no key the run makes no grant of
  any kind, and every grant the run makes is on the key the props carry, so none is ever
  attempted against an absent key.
\<close>

theorem decrypt_grant_iff_key_present:
  "(secret (dbCluster p) \<noteq> None \<longrightarrow>
      (\<exists>sp. services_declared (run_events scope cid p s) = [(service_path scope cid p, sp)])) \<and>
   (secret (dbCluster p) \<noteq> None \<and> access_logging_error scope cid p s = None \<longrightarrow>
      (\<forall>key grantee. (key, grantee) \<in> set (grants (run_events scope cid p s)) \<longleftrightarrow>
         read_slot (ecrKmsKey p) = Some key \<and>
         grantee = executionRole (service_object (service_path scope cid p)))) \<and>
   (secret (dbCluster p) = None \<or> access_logging_error scope cid p s \<noteq> None \<longrightarrow>
      grants (run_events scope cid p s) = []) \<and>
   (read_slot (ecrKmsKey p) = None \<longrightarrow> grants (run_events scope cid p s) = []) \<and>
   (\<forall>(key, grantee) \<in> set (grants (run_events scope cid p s)). read_slot (ecrKmsKey p) = Some key)"
proof (cases "secret (dbCluster p)")
  case None
  then show ?thesis by (simp add: declared_fails)
next
  case (Some h)
  from declared_succeeds [OF Some, of scope cid s]
  obtain sp where sp:
    "services_declared (run_events scope cid p s) = [(service_path scope cid p, sp)]"
    and g: "grants (run_events scope cid p s) =
       (case access_logging_error scope cid p s of
          Some e \<Rightarrow> []
        | None \<Rightarrow>
            (case read_slot (ecrKmsKey p) of
               Some key \<Rightarrow> [(key, executionRole (service_object (service_path scope cid p)))]
             | None \<Rightarrow> []))"
    by blast
  show ?thesis
  proof (cases "access_logging_error scope cid p s")
    case None
    show ?thesis
      by (cases "read_slot (ecrKmsKey p)") (auto simp add: Some sp g None)
  next
    case (Some e)
    then show ?thesis
      by (simp add: \<open>secret (dbCluster p) = Some h\<close> sp g)
  qed
qed

theorem decrypt_grant_iff_key_present_witness:
  "secret (dbCluster sample_props) \<noteq> None \<and>
   access_logging_error ''Stack'' ''Backstage'' sample_props empty_cloud = None \<and>
   read_slot (ecrKmsKey sample_props) = Some ''ecr-key'' \<and>
   (''ecr-key'', ''Stack/Backstage/baws-backstage/TaskDef/ExecutionRole'')
     \<in> set (grants (run_events ''Stack'' ''Backstage'' sample_props empty_cloud)) \<and>
   read_slot (ecrKmsKey sample_props_no_key) = None \<and>
   grants (run_events ''Stack'' ''Backstage'' sample_props_no_key empty_cloud) = [] \<and>
   access_logging_error ''Stack'' ''Backstage'' sample_props sample_cloud_no_region \<noteq> None \<and>
   grants (run_events ''Stack'' ''Backstage'' sample_props sample_cloud_no_region) = []"
proof -
  have c: "secret (dbCluster sample_props) \<noteq> None"
    by simp
  have l: "access_logging_error ''Stack'' ''Backstage'' sample_props empty_cloud = None"
    by (simp add: access_logging_error_def empty_cloud_def)
  have r: "access_logging_error ''Stack'' ''Backstage'' sample_props sample_cloud_no_region \<noteq> None"
    by (simp add: access_logging_error_def sample_cloud_no_region_def)
  have k: "read_slot (ecrKmsKey sample_props) = Some ''ecr-key''"
    by (simp add: sample_props_def)
  have n: "read_slot (ecrKmsKey sample_props_no_key) = None"
    by (simp add: sample_props_no_key_def)
  have path: "executionRole (service_object (service_path ''Stack'' ''Backstage'' sample_props)) =
                ''Stack/Backstage/baws-backstage/TaskDef/ExecutionRole''"
    by (simp add: service_object_def service_path_def child_def sample_props_def)
  from decrypt_grant_iff_key_present [of sample_props "''Stack''" "''Backstage''" empty_cloud] c l k
  have "(''ecr-key'', executionRole (service_object (service_path ''Stack'' ''Backstage'' sample_props)))
          \<in> set (grants (run_events ''Stack'' ''Backstage'' sample_props empty_cloud))"
    by blast
  moreover
  from decrypt_grant_iff_key_present [of sample_props_no_key "''Stack''" "''Backstage''" empty_cloud] n
  have "grants (run_events ''Stack'' ''Backstage'' sample_props_no_key empty_cloud) = []"
    by blast
  moreover
  from decrypt_grant_iff_key_present [of sample_props "''Stack''" "''Backstage''" sample_cloud_no_region] r
  have "grants (run_events ''Stack'' ''Backstage'' sample_props sample_cloud_no_region) = []"
    by blast
  ultimately show ?thesis using c l r k n by (simp add: path)
qed

text \<open>
  The sentence as the spec has it, that for every input the grant is made exactly when
  the key is present, fails on two sample runs whose props carry the key: the cluster
  without a credential secret, and the stack on which attaching access logging raises.
  Either run ends before the grant step and makes no grant.
\<close>

theorem decrypt_grant_counterexample:
  "read_slot (ecrKmsKey sample_props_no_credential) = Some ''ecr-key'' \<and>
   grants (run_events ''Stack'' ''Backstage'' sample_props_no_credential empty_cloud) = [] \<and>
   read_slot (ecrKmsKey sample_props) = Some ''ecr-key'' \<and>
   secret (dbCluster sample_props) = Some ''db-secret'' \<and>
   grants (run_events ''Stack'' ''Backstage'' sample_props sample_cloud_no_region) = []"
proof -
  have k: "read_slot (ecrKmsKey sample_props_no_credential) = Some ''ecr-key''"
    "read_slot (ecrKmsKey sample_props) = Some ''ecr-key''"
    by (simp_all add: sample_props_no_credential_def sample_props_def)
  have a: "grants (run_events ''Stack'' ''Backstage'' sample_props_no_credential empty_cloud) = []"
    by (simp add: declared_fails(1) [OF sample_secret(6)])
  have r: "access_logging_error ''Stack'' ''Backstage'' sample_props sample_cloud_no_region =
             Some (Error ''Region is required to enable ELBv2 access logging'')"
    by (simp add: access_logging_error_def sample_cloud_no_region_def)
  from declared_succeeds [OF sample_secret(1), of "''Stack''" "''Backstage''" sample_cloud_no_region]
  have b: "grants (run_events ''Stack'' ''Backstage'' sample_props sample_cloud_no_region) = []"
    by (auto simp add: r)
  from k a b show ?thesis
    by simp
qed

subsection \<open>The scenario of the spec\<close>

text \<open>
  C3, as amended. With a credentialed database at \<^verbatim>\<open>db.internal:5432\<close> and empty caller
  maps, the one service declared has container port 8080, desired count 2, 2048 MiB of
  memory and 512 CPU units, and it injects exactly these keys: as plaintext the two
  \<^verbatim>\<open>POSTGRES_*\<close> endpoint keys, here \<^verbatim>\<open>db.internal\<close> and \<^verbatim>\<open>5432\<close>, followed by the ten
  fixed branding and runtime keys \<^verbatim>\<open>BACKSTAGE_TITLE\<close>, \<^verbatim>\<open>BACKSTAGE_ORGNAME\<close>,
  \<^verbatim>\<open>PROTOCOL\<close>, \<^verbatim>\<open>BACKSTAGE_HOSTNAME\<close>, \<^verbatim>\<open>GITLAB_HOSTNAME\<close>, \<^verbatim>\<open>BACKSTAGE_PORT\<close>,
  \<^verbatim>\<open>NODE_ENV\<close>, \<^verbatim>\<open>CUSTOMER_NAME\<close>, \<^verbatim>\<open>CUSTOMER_LOGO\<close> and \<^verbatim>\<open>CUSTOMER_LOGO_ICON\<close>; as
  secrets the two \<^verbatim>\<open>POSTGRES_*\<close> credential keys, the four Okta keys, the service secret
  and the GitLab admin token; and no others.
\<close>

theorem scenario_service_definition:
  assumes "secret (dbCluster p) = Some h"
    and "hostname (clusterEndpoint (dbCluster p)) = ''db.internal''"
    and "port (clusterEndpoint (dbCluster p)) = 5432"
    and "envVars p = Defined []"
    and "secretVars p = Defined []"
  shows "\<exists>sp. services_declared (run_events scope cid p s) = [(service_path scope cid p, sp)] \<and>
     containerPort (taskImageOptions sp) = 8080 \<and>
     desiredCount sp = 2 \<and>
     memoryLimitMiB sp = 2048 \<and>
     cpu sp = 512 \<and>
     (''POSTGRES_HOST'', ''db.internal'') \<in> set (environment (taskImageOptions sp)) \<and>
     (''POSTGRES_PORT'', ''5432'') \<in> set (environment (taskImageOptions sp)) \<and>
     environment_keys sp =
       [''POSTGRES_HOST'', ''POSTGRES_PORT'', ''BACKSTAGE_TITLE'', ''BACKSTAGE_ORGNAME'',
        ''PROTOCOL'', ''BACKSTAGE_HOSTNAME'', ''GITLAB_HOSTNAME'', ''BACKSTAGE_PORT'',
        ''NODE_ENV'', ''CUSTOMER_NAME'', ''CUSTOMER_LOGO'', ''CUSTOMER_LOGO_ICON''] \<and>
     secret_keys sp =
       [''POSTGRES_USER'', ''POSTGRES_PASSWORD'', ''OKTA_ORG_URL'', ''OKTA_CLIENT_ID'',
        ''OKTA_CLIENT_SECRET'', ''OKTA_API_TOKEN'', ''BACKSTAGE_SECRET'',
        ''GITLAB_ADMIN_TOKEN'']"
proof -
  from declared_succeeds [OF assms(1), of scope cid s]
  obtain sp where sp:
    "service_props p (cluster_path scope cid) (secret_path scope cid p) = Inr sp"
    "services_declared (run_events scope cid p s) = [(service_path scope cid p, sp)]"
    by blast
  have port: "string_of_nat 5432 = ''5432''"
    by (simp add: string_of_nat.simps digit_char_def)
  from sp(1) service_props_Some [OF assms(1), of "cluster_path scope cid" "secret_path scope cid p"]
  have "containerPort (taskImageOptions sp) = 8080" "memoryLimitMiB sp = 2048" "cpu sp = 512"
    "desiredCount sp = 2"
    "environment (taskImageOptions sp) = environment_literal p"
    by auto
  with sp(2) keys_of_service_props [OF sp(1)] assms(2,3) port show ?thesis
    by (simp add: environment_literal_def)
qed

theorem scenario_service_definition_witness:
  "secret (dbCluster sample_props) = Some ''db-secret'' \<and>
   hostname (clusterEndpoint (dbCluster sample_props)) = ''db.internal'' \<and>
   port (clusterEndpoint (dbCluster sample_props)) = 5432 \<and>
   envVars sample_props = Defined [] \<and>
   secretVars sample_props = Defined [] \<and>
   (\<exists>sp. services_declared (run_events ''Stack'' ''Backstage'' sample_props empty_cloud) =
            [(''Stack/Backstage/baws-backstage'', sp)] \<and>
     containerPort (taskImageOptions sp) = 8080 \<and>
     desiredCount sp = 2 \<and>
     memoryLimitMiB sp = 2048 \<and>
     cpu sp = 512 \<and>
     (''POSTGRES_HOST'', ''db.internal'') \<in> set (environment (taskImageOptions sp)) \<and>
     (''POSTGRES_PORT'', ''5432'') \<in> set (environment (taskImageOptions sp)) \<and>
     environment_keys sp =
       [''POSTGRES_HOST'', ''POSTGRES_PORT'', ''BACKSTAGE_TITLE'', ''BACKSTAGE_ORGNAME'',
        ''PROTOCOL'', ''BACKSTAGE_HOSTNAME'', ''GITLAB_HOSTNAME'', ''BACKSTAGE_PORT'',
        ''NODE_ENV'', ''CUSTOMER_NAME'', ''CUSTOMER_LOGO'', ''CUSTOMER_LOGO_ICON''] \<and>
     secret_keys sp =
       [''POSTGRES_USER'', ''POSTGRES_PASSWORD'', ''OKTA_ORG_URL'', ''OKTA_CLIENT_ID'',
        ''OKTA_CLIENT_SECRET'', ''OKTA_API_TOKEN'', ''BACKSTAGE_SECRET'',
        ''GITLAB_ADMIN_TOKEN''])"
proof -
  have h: "secret (dbCluster sample_props) = Some ''db-secret''"
    "hostname (clusterEndpoint (dbCluster sample_props)) = ''db.internal''"
    "port (clusterEndpoint (dbCluster sample_props)) = 5432"
    "envVars sample_props = Defined []"
    "secretVars sample_props = Defined []"
    by (simp_all add: sample_props_def)
  have v: "service_path ''Stack'' ''Backstage'' sample_props = ''Stack/Backstage/baws-backstage''"
    by (simp add: service_path_def child_def sample_props_def)
  from scenario_service_definition [OF h, of "''Stack''" "''Backstage''" empty_cloud] h
  show ?thesis unfolding v by blast
qed

text \<open>
  The sentence as the spec has it names the four \<^verbatim>\<open>POSTGRES_*\<close> keys, the Okta keys, the
  admin token and the service secret, and no others. On the sample input of the scenario
  the injected keys are not that set: \<^verbatim>\<open>BACKSTAGE_TITLE\<close> is injected as well.
\<close>

theorem scenario_keys_counterexample:
  "map (\<lambda>(path, sp). injected_keys sp)
     (services_declared (run_events ''Stack'' ''Backstage'' sample_props empty_cloud)) \<noteq>
   [{''POSTGRES_HOST'', ''POSTGRES_PORT'', ''POSTGRES_USER'', ''POSTGRES_PASSWORD'',
     ''OKTA_ORG_URL'', ''OKTA_CLIENT_ID'', ''OKTA_CLIENT_SECRET'', ''OKTA_API_TOKEN'',
     ''GITLAB_ADMIN_TOKEN'', ''BACKSTAGE_SECRET''}]"
proof -
  define K :: "string set" where
    "K = {''POSTGRES_HOST'', ''POSTGRES_PORT'', ''POSTGRES_USER'', ''POSTGRES_PASSWORD'',
          ''OKTA_ORG_URL'', ''OKTA_CLIENT_ID'', ''OKTA_CLIENT_SECRET'', ''OKTA_API_TOKEN'',
          ''GITLAB_ADMIN_TOKEN'', ''BACKSTAGE_SECRET''}"
  from declared_succeeds [OF sample_secret(1), of "''Stack''" "''Backstage''" empty_cloud]
  obtain sp where sp:
    "service_props sample_props (cluster_path ''Stack'' ''Backstage'')
       (secret_path ''Stack'' ''Backstage'' sample_props) = Inr sp"
    "services_declared (run_events ''Stack'' ''Backstage'' sample_props empty_cloud) =
       [(service_path ''Stack'' ''Backstage'' sample_props, sp)]"
    by blast
  have inside: "''BACKSTAGE_TITLE'' \<in> injected_keys sp"
    by (simp add: injected_keys_def keys_of_service_props [OF sp(1)])
  have outside: "''BACKSTAGE_TITLE'' \<notin> K"
    by (simp add: K_def)
  have "map (\<lambda>(path, sp). injected_keys sp)
     (services_declared (run_events ''Stack'' ''Backstage'' sample_props empty_cloud)) \<noteq> [K]"
  proof
    assume "map (\<lambda>(path, sp). injected_keys sp)
     (services_declared (run_events ''Stack'' ''Backstage'' sample_props empty_cloud)) = [K]"
    then have "injected_keys sp = K"
      by (simp add: sp(2))
    with inside outside show False
      by blast
  qed
  then show ?thesis
    unfolding K_def .
qed

subsection \<open>The merge with the default props\<close>

text \<open>
  C8. The merge is caller-wins with defaults for what the caller omits: a props object
  that does not own \<^verbatim>\<open>envVars\<close> (or \<^verbatim>\<open>secretVars\<close>) gets the empty map for it, a map the
  caller supplies is kept as it is, and every other key of the caller's props is unchanged
  by the merge.
\<close>

theorem merge_is_caller_wins:
  "(envVars p = Absent \<longrightarrow> envVars (merge_props defaultProps p) = Defined []) \<and>
   (secretVars p = Absent \<longrightarrow> secretVars (merge_props defaultProps p) = Defined []) \<and>
   (\<forall>m. envVars p = Defined m \<longrightarrow> envVars (merge_props defaultProps p) = Defined m) \<and>
   (\<forall>m. secretVars p = Defined m \<longrightarrow> secretVars (merge_props defaultProps p) = Defined m) \<and>
   (merge_props defaultProps p)\<lparr>envVars := envVars p, secretVars := secretVars p\<rparr> = p"
  by (simp add: merge_props_def defaultProps_def)

theorem merge_is_caller_wins_witness:
  "envVars sample_props_no_maps = Absent \<and>
   envVars (merge_props defaultProps sample_props_no_maps) = Defined [] \<and>
   secretVars sample_props_no_maps = Absent \<and>
   secretVars (merge_props defaultProps sample_props_no_maps) = Defined [] \<and>
   envVars sample_props_caller_maps = Defined [(''FOO'', ''bar'')] \<and>
   envVars (merge_props defaultProps sample_props_caller_maps) = Defined [(''FOO'', ''bar'')] \<and>
   secretVars sample_props_caller_maps =
     Defined [(''EXTRA_TOKEN'', FromSecretsManager ''extra-secret'' None)] \<and>
   secretVars (merge_props defaultProps sample_props_caller_maps) =
     Defined [(''EXTRA_TOKEN'', FromSecretsManager ''extra-secret'' None)]"
proof -
  have a: "envVars sample_props_no_maps = Absent" "secretVars sample_props_no_maps = Absent"
    by (simp_all add: sample_props_no_maps_def)
  have d: "envVars sample_props_caller_maps = Defined [(''FOO'', ''bar'')]"
    "secretVars sample_props_caller_maps =
       Defined [(''EXTRA_TOKEN'', FromSecretsManager ''extra-secret'' None)]"
    by (simp_all add: sample_props_caller_maps_def)
  from merge_is_caller_wins [of sample_props_no_maps] merge_is_caller_wins [of sample_props_caller_maps]
    a d
  show ?thesis by blast
qed

text \<open>
  C10. The default is not robust to a key that is present but bound to \<^verbatim>\<open>undefined\<close>:
  for any props object whose \<^verbatim>\<open>envVars\<close> (or \<^verbatim>\<open>secretVars\<close>) is so bound, the merged
  props have it \<^verbatim>\<open>undefined\<close> and not the empty map, while the same object without the
  key gets the empty map.
\<close>

theorem explicit_undefined_defeats_default:
  "envVars (merge_props defaultProps (p\<lparr>envVars := Undefined\<rparr>)) = Undefined \<and>
   read_slot (envVars (merge_props defaultProps (p\<lparr>envVars := Undefined\<rparr>))) = None \<and>
   secretVars (merge_props defaultProps (p\<lparr>secretVars := Undefined\<rparr>)) = Undefined \<and>
   read_slot (secretVars (merge_props defaultProps (p\<lparr>secretVars := Undefined\<rparr>))) = None \<and>
   envVars (merge_props defaultProps (p\<lparr>envVars := Absent\<rparr>)) = Defined [] \<and>
   secretVars (merge_props defaultProps (p\<lparr>secretVars := Absent\<rparr>)) = Defined []"
  by (simp add: merge_props_def defaultProps_def)

subsection \<open>The database's perimeter\<close>

lemma ingress_step:
  "(isl (fst (constructor scope cid p s)) \<longleftrightarrow>
      secret (dbCluster p) = None \<or> access_logging_error scope cid p s \<noteq> None) \<and>
   (isl (fst (constructor scope cid p s)) \<longrightarrow> ingress (snd (constructor scope cid p s)) = ingress s) \<and>
   (\<not> isl (fst (constructor scope cid p s)) \<longrightarrow>
      ingress (snd (constructor scope cid p s)) =
        (ingress s)(connections (dbCluster p) :=
           insert (service_rule scope cid p) (ingress s (connections (dbCluster p))))) \<and>
   access_log_error (snd (constructor scope cid p s)) = access_log_error s"
proof (cases "secret (dbCluster p)")
  case None
  then show ?thesis by (simp add: declared_fails)
next
  case (Some h)
  from declared_succeeds [OF Some, of scope cid s]
  have i: "ingress (snd (constructor scope cid p s)) =
       (case access_logging_error scope cid p s of
          Some e \<Rightarrow> ingress s
        | None \<Rightarrow>
            (ingress s)(connections (dbCluster p) :=
               insert (service_rule scope cid p) (ingress s (connections (dbCluster p)))))"
    and f: "isl (fst (constructor scope cid p s)) \<longleftrightarrow> access_logging_error scope cid p s \<noteq> None"
    and k: "access_log_error (snd (constructor scope cid p s)) = access_log_error s"
    by blast+
  show ?thesis
    by (cases "access_logging_error scope cid p s") (simp_all add: Some i f k)
qed

text \<open>
  C6. One run of the constructor never removes a rule from any perimeter: every rule
  present before is present after. A run that completes adds to the database's perimeter
  the rule for the service it has declared and changes nothing else; a run that fails
  leaves every perimeter as it was, and a run fails exactly when the credential secret is
  missing or attaching access logging raises. After two runs in sequence every rule present before
  the first is still present, and when both complete against the same perimeter the rules
  of both services are in it.
\<close>

theorem perimeter_update_is_additive:
  assumes "constructor scope cid p s = (r, s')"
    and "constructor scope2 cid2 p2 s' = (r2, s'')"
  shows "(\<forall>c. ingress s c \<subseteq> ingress s' c) \<and>
     (\<forall>c. ingress s c \<subseteq> ingress s'' c) \<and>
     (isl r \<longleftrightarrow>
        secret (dbCluster p) = None \<or> access_logging_error scope cid p s \<noteq> None) \<and>
     (isl r2 \<longleftrightarrow>
        secret (dbCluster p2) = None \<or> access_logging_error scope2 cid2 p2 s' \<noteq> None) \<and>
     (isl r \<longrightarrow> ingress s' = ingress s) \<and>
     (\<not> isl r \<longrightarrow>
        ingress s' = (ingress s)(connections (dbCluster p) :=
          insert (service_rule scope cid p) (ingress s (connections (dbCluster p))))) \<and>
     (\<not> isl r \<and> \<not> isl r2 \<and> connections (dbCluster p2) = connections (dbCluster p) \<longrightarrow>
        service_rule scope cid p \<in> ingress s'' (connections (dbCluster p)) \<and>
        service_rule scope2 cid2 p2 \<in> ingress s'' (connections (dbCluster p)))"
proof -
  from ingress_step [of scope cid p s] assms(1)
  have one: "isl r \<longleftrightarrow>
      secret (dbCluster p) = None \<or> access_logging_error scope cid p s \<noteq> None"
    "isl r \<longrightarrow> ingress s' = ingress s"
    "\<not> isl r \<longrightarrow> ingress s' = (ingress s)(connections (dbCluster p) :=
          insert (service_rule scope cid p) (ingress s (connections (dbCluster p))))"
    by simp_all
  from ingress_step [of scope2 cid2 p2 s'] assms(2)
  have fails2: "isl r2 \<longleftrightarrow>
      secret (dbCluster p2) = None \<or> access_logging_error scope2 cid2 p2 s' \<noteq> None"
    by simp
  from ingress_step [of scope2 cid2 p2 s'] assms(2)
  have two: "isl r2 \<longrightarrow> ingress s'' = ingress s'"
    "\<not> isl r2 \<longrightarrow> ingress s'' = (ingress s')(connections (dbCluster p2) :=
          insert (service_rule scope2 cid2 p2) (ingress s' (connections (dbCluster p2))))"
    by simp_all
  have mono1: "\<forall>c. ingress s c \<subseteq> ingress s' c"
  proof (cases "isl r")
    case True
    with one(2) show ?thesis by simp
  next
    case False
    with one(3) have "ingress s' = (ingress s)(connections (dbCluster p) :=
          insert (service_rule scope cid p) (ingress s (connections (dbCluster p))))"
      by (rule mp)
    then show ?thesis by (simp add: subset_insertI)
  qed
  have mono2: "\<forall>c. ingress s' c \<subseteq> ingress s'' c"
  proof (cases "isl r2")
    case True
    with two(1) show ?thesis by simp
  next
    case False
    with two(2) have "ingress s'' = (ingress s')(connections (dbCluster p2) :=
          insert (service_rule scope2 cid2 p2) (ingress s' (connections (dbCluster p2))))"
      by (rule mp)
    then show ?thesis by (simp add: subset_insertI)
  qed
  have trans: "\<forall>c. ingress s c \<subseteq> ingress s'' c"
  proof
    fix c
    from mono1 have "ingress s c \<subseteq> ingress s' c" by (rule spec)
    also from mono2 have "ingress s' c \<subseteq> ingress s'' c" by (rule spec)
    finally show "ingress s c \<subseteq> ingress s'' c" .
  qed
  have both: "\<not> isl r \<and> \<not> isl r2 \<and> connections (dbCluster p2) = connections (dbCluster p) \<longrightarrow>
        service_rule scope cid p \<in> ingress s'' (connections (dbCluster p)) \<and>
        service_rule scope2 cid2 p2 \<in> ingress s'' (connections (dbCluster p))"
  proof (intro impI, elim conjE)
    assume a: "\<not> isl r" "\<not> isl r2" "connections (dbCluster p2) = connections (dbCluster p)"
    from one(3) a(1) have e1: "ingress s' = (ingress s)(connections (dbCluster p) :=
          insert (service_rule scope cid p) (ingress s (connections (dbCluster p))))"
      by (rule mp)
    from two(2) a(2) have e2: "ingress s'' = (ingress s')(connections (dbCluster p2) :=
          insert (service_rule scope2 cid2 p2) (ingress s' (connections (dbCluster p2))))"
      by (rule mp)
    show "service_rule scope cid p \<in> ingress s'' (connections (dbCluster p)) \<and>
          service_rule scope2 cid2 p2 \<in> ingress s'' (connections (dbCluster p))"
      by (simp add: e2 e1 a(3))
  qed
  show ?thesis
  proof (intro conjI)
    show "\<forall>c. ingress s c \<subseteq> ingress s' c" by (rule mono1)
    show "\<forall>c. ingress s c \<subseteq> ingress s'' c" by (rule trans)
    show "isl r \<longleftrightarrow>
        secret (dbCluster p) = None \<or> access_logging_error scope cid p s \<noteq> None"
      by (rule one(1))
    show "isl r2 \<longleftrightarrow>
        secret (dbCluster p2) = None \<or> access_logging_error scope2 cid2 p2 s' \<noteq> None"
      by (rule fails2)
    show "isl r \<longrightarrow> ingress s' = ingress s" by (rule one(2))
    show "\<not> isl r \<longrightarrow> ingress s' = (ingress s)(connections (dbCluster p) :=
          insert (service_rule scope cid p) (ingress s (connections (dbCluster p))))"
      by (rule one(3))
    show "\<not> isl r \<and> \<not> isl r2 \<and> connections (dbCluster p2) = connections (dbCluster p) \<longrightarrow>
        service_rule scope cid p \<in> ingress s'' (connections (dbCluster p)) \<and>
        service_rule scope2 cid2 p2 \<in> ingress s'' (connections (dbCluster p))"
      by (rule both)
  qed
qed

theorem perimeter_update_is_additive_witness:
  "AllowDefaultPort ''bastion'' ''operator access'' \<in> ingress sample_cloud ''db-sg'' \<and>
   AllowDefaultPort ''bastion'' ''operator access''
     \<in> ingress (snd (constructor ''Stack'' ''Portal'' sample_props_second
          (snd (constructor ''Stack'' ''Backstage'' sample_props sample_cloud)))) ''db-sg'' \<and>
   AllowDefaultPort ''Stack/Backstage/baws-backstage/Service'' ''from fargate service''
     \<in> ingress (snd (constructor ''Stack'' ''Portal'' sample_props_second
          (snd (constructor ''Stack'' ''Backstage'' sample_props sample_cloud)))) ''db-sg'' \<and>
   AllowDefaultPort ''Stack/Portal/other-backstage/Service'' ''from fargate service''
     \<in> ingress (snd (constructor ''Stack'' ''Portal'' sample_props_second
          (snd (constructor ''Stack'' ''Backstage'' sample_props sample_cloud)))) ''db-sg''"
proof -
  let ?c1 = "constructor ''Stack'' ''Backstage'' sample_props sample_cloud"
  let ?c2 = "constructor ''Stack'' ''Portal'' sample_props_second (snd ?c1)"
  note t = perimeter_update_is_additive [of "''Stack''" "''Backstage''" sample_props sample_cloud
      "fst ?c1" "snd ?c1" "''Stack''" "''Portal''" sample_props_second "fst ?c2" "snd ?c2",
      OF surjective_pairing surjective_pairing]
  have conn: "connections (dbCluster sample_props) = ''db-sg''"
    "connections (dbCluster sample_props_second) = ''db-sg''"
    by (simp_all add: sample_props_second_def sample_props_def)
  have rules: "service_rule ''Stack'' ''Backstage'' sample_props =
      AllowDefaultPort ''Stack/Backstage/baws-backstage/Service'' ''from fargate service''"
    "service_rule ''Stack'' ''Portal'' sample_props_second =
      AllowDefaultPort ''Stack/Portal/other-backstage/Service'' ''from fargate service''"
    by (simp_all add: service_rule_def service_object_def service_path_def child_def
        sample_props_second_def sample_props_def)
  have before: "AllowDefaultPort ''bastion'' ''operator access'' \<in> ingress sample_cloud ''db-sg''"
    by (simp add: sample_cloud_def)
  from t have "ingress sample_cloud ''db-sg'' \<subseteq> ingress (snd ?c2) ''db-sg''"
    by blast
  with before have kept: "AllowDefaultPort ''bastion'' ''operator access'' \<in> ingress (snd ?c2) ''db-sg''"
    by blast
  have log1: "access_logging_error ''Stack'' ''Backstage'' sample_props sample_cloud = None"
    by (simp add: access_logging_error_def sample_cloud_def)
  from ingress_step [of "''Stack''" "''Backstage''" sample_props sample_cloud]
  have "access_log_error (snd ?c1) = access_log_error sample_cloud"
    by blast
  then have log2: "access_logging_error ''Stack'' ''Portal'' sample_props_second (snd ?c1) = None"
    by (simp add: access_logging_error_def sample_cloud_def)
  from t log1 log2 have ok: "\<not> isl (fst ?c1)" "\<not> isl (fst ?c2)"
    by simp_all
  from t ok conn
  have "service_rule ''Stack'' ''Backstage'' sample_props \<in> ingress (snd ?c2) ''db-sg'' \<and>
        service_rule ''Stack'' ''Portal'' sample_props_second \<in> ingress (snd ?c2) ''db-sg''"
    by simp
  with before kept show ?thesis
    by (simp add: rules)
qed

end
